theory Spec2Isabelle
  imports Complex_Main "HOL-Library.Sublist"
begin

section \<open>The retry utility of \<^verbatim>\<open>src/utils/retry.js\<close>\<close>

text \<open>
  The module exports one \<^verbatim>\<open>RetryUtility\<close> object with the methods \<^verbatim>\<open>retry\<close>,
  \<^verbatim>\<open>isRetryable\<close>, \<^verbatim>\<open>calculateDelay\<close> and \<^verbatim>\<open>createCircuitBreaker\<close>. The embedding
  below follows the JavaScript statement by statement. Calls of the logger only print
  and are left out, but for the reads of \<^verbatim>\<open>error.message\<close> and \<^verbatim>\<open>lastError.message\<close> in
  their arguments, which can throw; every other effect (invoking the wrapped operation,
  drawing a random number, sleeping, reading the clock, updating the breaker's closure
  variables) is explicit state. Calls are made one after the other: each is awaited
  before the next is made.
\<close>

subsection \<open>JavaScript values, thrown values and outcomes\<close>

text \<open>
  A property of an error object holds any JavaScript value. \<open>Other\<close> stands for every
  value that is none of the named ones (an object, an array, a function, a symbol);
  such a value is truthy, is not found in an array of numbers and equals no string. It
  is taken to have no method \<^verbatim>\<open>toLowerCase\<close> and to be a value the logger can print
  (\<^verbatim>\<open>JSON.stringify\<close> returns on it). A number is a real (\<^verbatim>\<open>NaN\<close> behaves like 0 in
  every test the code makes). \<^verbatim>\<open>truthy\<close> is JavaScript's conversion to boolean.
\<close>

datatype js_value = Undefined | Null | Bool bool | Num real | Str string | Other

fun truthy :: "js_value \<Rightarrow> bool" where
  "truthy Undefined = False"
| "truthy Null = False"
| "truthy (Bool b) = b"
| "truthy (Num n) = (n \<noteq> 0)"
| "truthy (Str s) = (s \<noteq> [])"
| "truthy Other = True"

text \<open>
  The properties the code reads of an error object; a property the object does not have
  is \<^verbatim>\<open>undefined\<close>.
\<close>

record js_error =
  code :: js_value
  status :: js_value
  message :: js_value

text \<open>
  An operation may reject with any value: an object, or a value that is not an object.
  Reading a property of \<^verbatim>\<open>undefined\<close> or \<^verbatim>\<open>null\<close> throws a \<^verbatim>\<open>TypeError\<close> (\<open>None\<close>
  below); reading \<^verbatim>\<open>code\<close>, \<^verbatim>\<open>status\<close> or \<^verbatim>\<open>message\<close> of any other value that is not
  an object gives \<^verbatim>\<open>undefined\<close>.
\<close>

datatype thrown = Primitive js_value | Object js_error

definition no_properties :: js_error where
  "no_properties = \<lparr>code = Undefined, status = Undefined, message = Undefined\<rparr>"

fun props :: "thrown \<Rightarrow> js_error option" where
  "props (Primitive Undefined) = None"
| "props (Primitive Null) = None"
| "props (Primitive v) = Some no_properties"
| "props (Object e) = Some e"

text \<open>An awaited operation either resolves with a result or rejects with a value.\<close>

datatype 'r outcome = Returns 'r | Throws thrown

subsection \<open>Strings: \<^verbatim>\<open>toLowerCase\<close> and \<^verbatim>\<open>includes\<close>\<close>

text \<open>
  A string is the sequence of the bytes of its UTF-8 encoding, so a character of ASCII is
  one byte with the top bit clear. \<^verbatim>\<open>String.prototype.toLowerCase\<close> follows the Unicode
  case mappings; it is the parameter \<open>lc\<close> of the functions below, and the theorems
  that depend on it ask of it only this: on a string of ASCII characters it maps the
  letters A to Z to a to z and leaves the rest alone.
  \<^verbatim>\<open>String.prototype.includes\<close> is the test for a contiguous substring, \<^const>\<open>sublist\<close>.
\<close>

definition lower_char :: "char \<Rightarrow> char" where
  "lower_char c =
     (case map_of (zip ''ABCDEFGHIJKLMNOPQRSTUVWXYZ'' ''abcdefghijklmnopqrstuvwxyz'') c of
        Some l \<Rightarrow> l
      | None \<Rightarrow> c)"

definition ascii_lower :: "string \<Rightarrow> string" where
  "ascii_lower s = map lower_char s"

definition is_ascii :: "char \<Rightarrow> bool" where
  "is_ascii c = (\<not> digit7 c)"

definition lowers_ascii :: "(string \<Rightarrow> string) \<Rightarrow> bool" where
  "lowers_ascii lc = (\<forall>s. list_all is_ascii s \<longrightarrow> lc s = ascii_lower s)"

definition str_includes :: "string \<Rightarrow> string \<Rightarrow> bool" where
  "str_includes s needle = sublist needle s"

subsection \<open>\<^verbatim>\<open>isRetryable\<close> (lines 91 to 126)\<close>

definition retryableStatusCodes :: "real list" where
  "retryableStatusCodes = [429, 500, 502, 503, 504]"

text \<open>\<^verbatim>\<open>Array.prototype.includes\<close> on an array of numbers: only a number can be found.\<close>

fun array_includes :: "real list \<Rightarrow> js_value \<Rightarrow> bool" where
  "array_includes xs (Num n) = (n \<in> set xs)"
| "array_includes xs v = False"

text \<open>Lines 113 to 120, on a message that is a string.\<close>

definition message_matches :: "(string \<Rightarrow> string) \<Rightarrow> string \<Rightarrow> bool" where
  "message_matches lc m =
     (let message = lc m in
        str_includes message ''timeout'' \<or>
        str_includes message ''network'' \<or>
        str_includes message ''connection'' \<or>
        str_includes message ''service unavailable'' \<or>
        str_includes message ''rate limit'' \<or>
        str_includes message ''quota'')"

text \<open>
  \<^verbatim>\<open>isRetryable\<close> returns a boolean or throws a \<^verbatim>\<open>TypeError\<close> (\<open>None\<close>): at line 95 when
  \<^verbatim>\<open>error\<close> is \<^verbatim>\<open>undefined\<close> or \<^verbatim>\<open>null\<close>, at line 113 when \<^verbatim>\<open>error.message\<close> is truthy
  and not a string.
\<close>

definition isRetryable :: "(string \<Rightarrow> string) \<Rightarrow> thrown \<Rightarrow> bool option" where
  "isRetryable lc error =
     (case props error of
        None \<Rightarrow> None
      | Some e \<Rightarrow>
          if truthy (code e) \<and> array_includes retryableStatusCodes (code e) then Some True
          else if truthy (status e) \<and> array_includes retryableStatusCodes (status e)
            then Some True
          else if code e = Str ''ECONNRESET'' \<or>
                  code e = Str ''ENOTFOUND'' \<or>
                  code e = Str ''ECONNREFUSED'' \<or>
                  code e = Str ''ETIMEDOUT'' then Some True
          else if truthy (message e) then
            (case message e of
               Str m \<Rightarrow> if message_matches lc m then Some True else Some False
             | _ \<Rightarrow> None)
          else Some False)"

subsection \<open>Configuration of \<^verbatim>\<open>retry\<close> (lines 5 to 11 and 16)\<close>

text \<open>
  \<^verbatim>\<open>maxAttempts\<close> is an integer (of either sign); the delays are JavaScript numbers,
  modelled as reals.
  Every arithmetic operation of the source on delays is followed by the rounding of
  double precision, the parameter \<open>rnd\<close> of the functions below; the theorems
  that depend on it say what they need of it.
\<close>

text \<open>
  What the theorems ask of the rounding: it is monotone, and exact on every half of an
  integer up to \<open>2 ^ 53\<close> in absolute value. Rounding to the nearest double is both.
\<close>

definition rounds_like_double :: "(real \<Rightarrow> real) \<Rightarrow> bool" where
  "rounds_like_double rnd =
     (mono rnd \<and> (\<forall>k::int. \<bar>k\<bar> \<le> 2 ^ 53 \<longrightarrow> rnd (of_int k / 2) = of_int k / 2))"

record retry_config =
  maxAttempts :: int
  initialDelay :: real
  maxDelay :: real
  backoffFactor :: real
  jitter :: bool

record retry_options =
  opt_maxAttempts :: "int option"
  opt_initialDelay :: "real option"
  opt_maxDelay :: "real option"
  opt_backoffFactor :: "real option"
  opt_jitter :: "bool option"

definition defaultOptions :: retry_config where
  "defaultOptions =
     \<lparr>maxAttempts = 3, initialDelay = 1000, maxDelay = 10000, backoffFactor = 2,
      jitter = True\<rparr>"

definition no_options :: retry_options where
  "no_options =
     \<lparr>opt_maxAttempts = None, opt_initialDelay = None, opt_maxDelay = None,
      opt_backoffFactor = None, opt_jitter = None\<rparr>"

text \<open>The object spread \<^verbatim>\<open>{ ...this.defaultOptions, ...options }\<close>.\<close>

definition spread :: "retry_config \<Rightarrow> retry_options \<Rightarrow> retry_config" where
  "spread d opts =
     \<lparr>maxAttempts = (case opt_maxAttempts opts of None \<Rightarrow> maxAttempts d | Some v \<Rightarrow> v),
      initialDelay = (case opt_initialDelay opts of None \<Rightarrow> initialDelay d | Some v \<Rightarrow> v),
      maxDelay = (case opt_maxDelay opts of None \<Rightarrow> maxDelay d | Some v \<Rightarrow> v),
      backoffFactor = (case opt_backoffFactor opts of None \<Rightarrow> backoffFactor d | Some v \<Rightarrow> v),
      jitter = (case opt_jitter opts of None \<Rightarrow> jitter d | Some v \<Rightarrow> v)\<rparr>"

subsection \<open>\<^verbatim>\<open>calculateDelay\<close> (lines 129 to 137)\<close>

text \<open>
  \<open>u\<close> is the value \<^verbatim>\<open>Math.random()\<close> returns, a number from 0 up to but not including 1.
  The product \<^verbatim>\<open>baseDelay * 0.25 * (Math.random() - 0.5) * 2\<close> associates to the left.
\<close>

definition calculateDelay :: "(real \<Rightarrow> real) \<Rightarrow> real \<Rightarrow> retry_config \<Rightarrow> real \<Rightarrow> real" where
  "calculateDelay rnd baseDelay config u =
     (if \<not> jitter config then baseDelay
      else
        (let jit = rnd (rnd (rnd (baseDelay * 0.25) * rnd (u - 0.5)) * 2)
         in max 100 (rnd (baseDelay + jit))))"

subsection \<open>\<^verbatim>\<open>retry\<close> (lines 15 to 88)\<close>

text \<open>
  The operation is given by the outcome of each of its invocations: \<open>operation k\<close> is
  what the invocation number \<open>k\<close> (from 0) does. \<open>random k\<close> is the draw number
  \<open>k\<close> of \<^verbatim>\<open>Math.random()\<close>. The trace counts the invocations and the draws made and
  lists the delays slept, the latest last.
\<close>

record trace =
  calls :: nat
  draws :: nat
  sleeps :: "real list"

text \<open>
  \<^verbatim>\<open>retry\<close> returns the operation's result, rethrows a value the operation rejected
  with, or fails with a \<^verbatim>\<open>TypeError\<close> of its own: of reading \<^verbatim>\<open>error.message\<close> (line 48),
  of \<^verbatim>\<open>isRetryable\<close> (line 49), or of reading \<^verbatim>\<open>lastError.message\<close> (line 84).
\<close>

datatype 'r retry_result = Returned 'r | Rethrown thrown | TypeError

text \<open>Lines 81 to 87, after the loop.\<close>

definition exhausted :: "thrown option \<Rightarrow> 'r retry_result" where
  "exhausted lastError =
     (case lastError of
        None \<Rightarrow> TypeError
      | Some e \<Rightarrow> (case props e of None \<Rightarrow> TypeError | Some q \<Rightarrow> Rethrown e))"

text \<open>The \<^verbatim>\<open>for\<close> loop of lines 20 to 79, entered at its test with the loop variables.\<close>

function retry_loop ::
  "(real \<Rightarrow> real) \<Rightarrow> (string \<Rightarrow> string) \<Rightarrow> (nat \<Rightarrow> 'r outcome) \<Rightarrow> (nat \<Rightarrow> real) \<Rightarrow>
     retry_config \<Rightarrow> int \<Rightarrow> real \<Rightarrow> thrown option \<Rightarrow> trace \<Rightarrow> 'r retry_result \<times> trace" where
  "retry_loop rnd lc operation random config attempt delay lastError tr =
     (if attempt \<le> maxAttempts config then
        (case operation (calls tr) of
           Returns result \<Rightarrow> (Returned result, tr\<lparr>calls := calls tr + 1\<rparr>)
         | Throws error \<Rightarrow>
             (case props error of
                None \<Rightarrow> (TypeError, tr\<lparr>calls := calls tr + 1\<rparr>)
              | Some q \<Rightarrow>
                  (case isRetryable lc error of
                     None \<Rightarrow> (TypeError, tr\<lparr>calls := calls tr + 1\<rparr>)
                   | Some retryable \<Rightarrow>
                       if \<not> retryable then (Rethrown error, tr\<lparr>calls := calls tr + 1\<rparr>)
                       else if attempt = maxAttempts config
                         then (exhausted (Some error), tr\<lparr>calls := calls tr + 1\<rparr>)
                       else
                         (let actualDelay =
                            calculateDelay rnd delay config (random (draws tr))
                          in retry_loop rnd lc operation random config (attempt + 1)
                               (min (rnd (delay * backoffFactor config)) (maxDelay config))
                               (Some error)
                               \<lparr>calls = calls tr + 1,
                                draws = (if jitter config then draws tr + 1 else draws tr),
                                sleeps = sleeps tr @ [actualDelay]\<rparr>))))
      else (exhausted lastError, tr))"
  by pat_completeness auto
termination
  by (relation "measure (\<lambda>(rnd, lc, operation, random, config, attempt, delay, lastError, tr).
        nat (maxAttempts config + 1 - attempt))") auto

definition start :: trace where
  "start = \<lparr>calls = 0, draws = 0, sleeps = []\<rparr>"

definition retry ::
  "(real \<Rightarrow> real) \<Rightarrow> (string \<Rightarrow> string) \<Rightarrow> (nat \<Rightarrow> 'r outcome) \<Rightarrow> (nat \<Rightarrow> real) \<Rightarrow>
     retry_options \<Rightarrow> 'r retry_result \<times> trace" where
  "retry rnd lc operation random options =
     (let config = spread defaultOptions options
      in retry_loop rnd lc operation random config 1 (initialDelay config) None start)"

subsection \<open>\<^verbatim>\<open>createCircuitBreaker\<close> (lines 212 to 282)\<close>

datatype cb_state = CLOSED | OPEN | HALF_OPEN

record cb_config =
  failureThreshold :: int
  resetTimeout :: int
  monitoringWindow :: int

record cb_options =
  opt_failureThreshold :: "int option"
  opt_resetTimeout :: "int option"
  opt_monitoringWindow :: "int option"

definition cb_defaults :: cb_config where
  "cb_defaults = \<lparr>failureThreshold = 5, resetTimeout = 60000, monitoringWindow = 300000\<rparr>"

definition cb_no_options :: cb_options where
  "cb_no_options =
     \<lparr>opt_failureThreshold = None, opt_resetTimeout = None, opt_monitoringWindow = None\<rparr>"

text \<open>Lines 213 to 218: the defaults, overridden by the caller's options.\<close>

definition cb_spread :: "cb_config \<Rightarrow> cb_options \<Rightarrow> cb_config" where
  "cb_spread d opts =
     \<lparr>failureThreshold =
        (case opt_failureThreshold opts of None \<Rightarrow> failureThreshold d | Some v \<Rightarrow> v),
      resetTimeout = (case opt_resetTimeout opts of None \<Rightarrow> resetTimeout d | Some v \<Rightarrow> v),
      monitoringWindow =
        (case opt_monitoringWindow opts of None \<Rightarrow> monitoringWindow d | Some v \<Rightarrow> v)\<rparr>"

text \<open>
  The closure variables of lines 220 to 223. \<^verbatim>\<open>lastFailureTime\<close> is \<^verbatim>\<open>null\<close> or a
  value of \<^verbatim>\<open>Date.now()\<close>, an integer number of milliseconds.
\<close>

record breaker =
  state :: cb_state
  failures :: int
  lastFailureTime :: "int option"
  successes :: int

definition fresh :: breaker where
  "fresh = \<lparr>state = CLOSED, failures = 0, lastFailureTime = None, successes = 0\<rparr>"

text \<open>
  The test \<^verbatim>\<open>lastFailureTime && (now - lastFailureTime) > limit\<close> of lines 229 and 237:
  \<^verbatim>\<open>null\<close> and the number 0 are falsy.
\<close>

definition elapsed_exceeds :: "int \<Rightarrow> int option \<Rightarrow> int \<Rightarrow> bool" where
  "elapsed_exceeds now since limit =
     (case since of None \<Rightarrow> False | Some t \<Rightarrow> t \<noteq> 0 \<and> now - t > limit)"

text \<open>Lines 229 to 233: the reset once the monitoring window has passed.\<close>

definition window_reset :: "cb_config \<Rightarrow> int \<Rightarrow> breaker \<Rightarrow> breaker" where
  "window_reset config now b =
     (if elapsed_exceeds now (lastFailureTime b) (monitoringWindow config)
      then b\<lparr>failures := 0, successes := 0, state := CLOSED\<rparr>
      else b)"

text \<open>
  Lines 236 to 247: an open circuit lets the call through as a probe or throws;
  \<open>None\<close> is the throw of line 245.
\<close>

definition admit :: "cb_config \<Rightarrow> int \<Rightarrow> breaker \<Rightarrow> breaker option" where
  "admit config now b =
     (if state b = OPEN then
        (if elapsed_exceeds now (lastFailureTime b) (resetTimeout config)
         then Some (b\<lparr>state := HALF_OPEN, successes := 0\<rparr>)
         else None)
      else Some b)"

text \<open>Lines 252 to 262, after the operation has returned.\<close>

definition on_success :: "breaker \<Rightarrow> breaker" where
  "on_success b =
     (if state b = HALF_OPEN then
        (let b1 = b\<lparr>successes := successes b + 1\<rparr>
         in if successes b1 \<ge> 2 then b1\<lparr>state := CLOSED, failures := 0\<rparr> else b1)
      else b)"

text \<open>Lines 267 to 277, after the operation has thrown.\<close>

definition on_failure :: "cb_config \<Rightarrow> int \<Rightarrow> breaker \<Rightarrow> breaker" where
  "on_failure config now b =
     (let b1 = b\<lparr>failures := failures b + 1, lastFailureTime := Some now\<rparr>
      in if state b1 = HALF_OPEN \<or> failures b1 \<ge> failureThreshold config
         then b1\<lparr>state := OPEN\<rparr>
         else b1)"

definition open_error :: thrown where
  "open_error =
     Object \<lparr>code = Undefined, status = Undefined,
       message = Str ''Circuit breaker is OPEN - operation temporarily disabled''\<rparr>"

text \<open>
  One call of the function \<^verbatim>\<open>createCircuitBreaker\<close> returns (lines 225 to 281), made when
  \<^verbatim>\<open>Date.now()\<close> is \<open>now\<close>. The state is the breaker's variables and the number of
  invocations of the wrapped operation so far; the call returns its outcome and the new
  state.
\<close>

definition guarded ::
  "cb_config \<Rightarrow> (nat \<Rightarrow> 'r outcome) \<Rightarrow> int \<Rightarrow> breaker \<times> nat \<Rightarrow>
     'r outcome \<times> breaker \<times> nat" where
  "guarded config operation now s =
     (case s of (b, n) \<Rightarrow>
        (let b1 = window_reset config now b in
           case admit config now b1 of
             None \<Rightarrow> (Throws open_error, b1, n)
           | Some b2 \<Rightarrow>
               (case operation n of
                  Returns result \<Rightarrow> (Returns result, on_success b2, n + 1)
                | Throws error \<Rightarrow> (Throws error, on_failure config now b2, n + 1))))"

text \<open>\<^verbatim>\<open>createCircuitBreaker(operation, options)\<close>: the configuration and the initial state.\<close>

definition createCircuitBreaker :: "cb_options \<Rightarrow> cb_config \<times> breaker \<times> nat" where
  "createCircuitBreaker options = (cb_spread cb_defaults options, fresh, 0)"

text \<open>Calls made one after the other, at the given clock readings.\<close>

fun run :: "cb_config \<Rightarrow> (nat \<Rightarrow> 'r outcome) \<Rightarrow> int list \<Rightarrow> breaker \<times> nat \<Rightarrow> breaker \<times> nat" where
  "run config operation [] s = s"
| "run config operation (now # later) s =
     run config operation later (snd (guarded config operation now s))"

section \<open>Concrete inputs\<close>

text \<open>
  The errors and operations of the unit tests (\<^verbatim>\<open>test/unit/retry.test.js\<close> and its
  helper \<^verbatim>\<open>createMockGoogleApiError\<close>), used below to run the model.
\<close>

definition mock_error :: "real \<Rightarrow> string \<Rightarrow> thrown" where
  "mock_error c m = Object \<lparr>code = Num c, status = Num c, message = Str m\<rparr>"

definition error_503 :: thrown where
  "error_503 = mock_error 503 ''Mock Google API Error''"

definition error_400 :: thrown where
  "error_400 = mock_error 400 ''Bad request''"

definition quota_403 :: thrown where
  "quota_403 = mock_error 403 ''Quota exceeded''"

definition test_error :: thrown where
  "test_error = Object \<lparr>code = Undefined, status = Undefined, message = Str ''Test error''\<rparr>"

text \<open>An error object whose message is the number 42.\<close>

definition numeric_message :: thrown where
  "numeric_message = Object \<lparr>code = Undefined, status = Undefined, message = Num 42\<rparr>"

text \<open>An operation that rejects with \<open>e\<close> on every invocation.\<close>

definition always_fails :: "thrown \<Rightarrow> nat \<Rightarrow> string outcome" where
  "always_fails e k = Throws e"

text \<open>An operation that rejects with \<open>e\<close> on its first \<open>n\<close> invocations and resolves afterwards.\<close>

definition fails_first :: "nat \<Rightarrow> thrown \<Rightarrow> nat \<Rightarrow> string outcome" where
  "fails_first n e k = (if k < n then Throws e else Returns ''success'')"

text \<open>An operation that rejects, resolves, and rejects from then on.\<close>

definition fail_ok_fail :: "nat \<Rightarrow> string outcome" where
  "fail_ok_fail k = (if k = 1 then Returns ''success'' else Throws test_error)"

text \<open>Arithmetic without rounding error, and a random source that always draws one half.\<close>

definition exact :: "real \<Rightarrow> real" where
  "exact x = x"

definition half :: "nat \<Rightarrow> real" where
  "half k = 1 / 2"

definition attempts :: "int \<Rightarrow> retry_options" where
  "attempts n = no_options\<lparr>opt_maxAttempts := Some n\<rparr>"


definition threshold :: "int \<Rightarrow> cb_config" where
  "threshold n = fst (createCircuitBreaker (cb_no_options\<lparr>opt_failureThreshold := Some n\<rparr>))"

text \<open>The options of the test of the half-open state.\<close>

definition quick_reset :: cb_config where
  "quick_reset =
     fst (createCircuitBreaker
       \<lparr>opt_failureThreshold = Some 2, opt_resetTimeout = Some 100,
        opt_monitoringWindow = None\<rparr>)"

definition network_error :: thrown where
  "network_error =
     Object \<lparr>code = Str ''ECONNRESET'', status = Undefined, message = Str ''Network error''\<rparr>"

text \<open>A breaker that two failures at time 1000 have opened, and one that is probing.\<close>

definition tripped :: breaker where
  "tripped = \<lparr>state = OPEN, failures = 2, lastFailureTime = Some 1000, successes = 0\<rparr>"

definition probing :: breaker where
  "probing = \<lparr>state = HALF_OPEN, failures = 2, lastFailureTime = Some 1000, successes = 1\<rparr>"

section \<open>The classes of errors, in the words of the specification\<close>

text \<open>
  The specification lists the network codes and the phrases, and asks that the message
  contain a phrase case-insensitively: the phrase in lower case is a contiguous part of
  the message in lower case. These definitions are not taken from the code; the theorems
  on \<^const>\<open>isRetryable\<close> compare the code with them.
\<close>

definition network_codes :: "string list" where
  "network_codes = [''ECONNRESET'', ''ENOTFOUND'', ''ECONNREFUSED'', ''ETIMEDOUT'']"

definition retryable_phrases :: "string list" where
  "retryable_phrases =
     [''timeout'', ''network'', ''connection'', ''service unavailable'', ''rate limit'', ''quota'']"

definition contains_ignoring_case :: "(string \<Rightarrow> string) \<Rightarrow> string \<Rightarrow> string \<Rightarrow> bool" where
  "contains_ignoring_case lc m phrase = sublist (lc phrase) (lc m)"

section \<open>The retry loop\<close>

declare retry_loop.simps [simp del]

text \<open>
  \<^verbatim>\<open>isRetryable\<close> throws on a value whose properties cannot be read, so a value it
  classifies passes line 48.
\<close>

lemma isRetryable_props:
  "isRetryable lc e = Some b \<Longrightarrow> \<exists>q. props e = Some q"
  by (cases "props e") (simp_all add: isRetryable_def)




lemma retry_loop_fatal:
  "attempt \<le> maxAttempts config \<Longrightarrow> operation (calls tr) = Throws e \<Longrightarrow>
   isRetryable lc e = Some False \<Longrightarrow>
     retry_loop rnd lc operation random config attempt delay lastError tr
       = (Rethrown e, tr\<lparr>calls := calls tr + 1\<rparr>)"
  using isRetryable_props[of lc e False]
  by (subst retry_loop.simps) auto





section \<open>Rounding\<close>

lemma rounds_exact_half:
  "rounds_like_double rnd \<Longrightarrow> \<bar>k\<bar> \<le> 2 ^ 53 \<Longrightarrow> rnd (of_int k / 2) = of_int k / 2"
  by (simp add: rounds_like_double_def)

lemma rounds_between:
  assumes "rounds_like_double rnd" "\<bar>lo\<bar> \<le> 2 ^ 53" "\<bar>hi\<bar> \<le> 2 ^ 53"
    and "of_int lo / 2 \<le> x" "x \<le> of_int hi / 2"
  shows "of_int lo / 2 \<le> rnd x \<and> rnd x \<le> of_int hi / 2"
proof -
  have m: "mono rnd" using assms(1) by (simp add: rounds_like_double_def)
  have "rnd (of_int lo / 2) \<le> rnd x" using m assms(4) by (rule monoD)
  moreover have "rnd x \<le> rnd (of_int hi / 2)" using m assms(5) by (rule monoD)
  ultimately show ?thesis
    using rounds_exact_half[OF assms(1,2)] rounds_exact_half[OF assms(1,3)] by simp
qed

lemma rounds_like_double_exact: "rounds_like_double exact"
  by (simp add: rounds_like_double_def exact_def mono_def)

lemma jitter_range:
  assumes d: "rounds_like_double rnd" and u: "0 \<le> u" "u < 1"
  shows "750 \<le> rnd (1000 + rnd (rnd (rnd (1000 * 0.25) * rnd (u - 0.5)) * 2))
       \<and> rnd (1000 + rnd (rnd (rnd (1000 * 0.25) * rnd (u - 0.5)) * 2)) \<le> 1250"
proof -
  have a: "rnd (1000 * 0.25) = 250"
    using rounds_exact_half[OF d, of 500] by simp
  have b: "- 1 / 2 \<le> rnd (u - 0.5) \<and> rnd (u - 0.5) \<le> 1 / 2"
    using rounds_between[OF d, of "-1" 1 "u - 0.5"] u by simp
  then have "of_int (-250) / 2 \<le> 250 * rnd (u - 0.5)" "250 * rnd (u - 0.5) \<le> of_int 250 / 2"
    by simp_all
  from rounds_between[OF d _ _ this]
  have c: "- 125 \<le> rnd (250 * rnd (u - 0.5)) \<and> rnd (250 * rnd (u - 0.5)) \<le> 125"
    by simp
  then have "of_int (-500) / 2 \<le> rnd (250 * rnd (u - 0.5)) * 2"
      "rnd (250 * rnd (u - 0.5)) * 2 \<le> of_int 500 / 2"
    by simp_all
  from rounds_between[OF d _ _ this]
  have e: "- 250 \<le> rnd (rnd (250 * rnd (u - 0.5)) * 2) \<and> rnd (rnd (250 * rnd (u - 0.5)) * 2) \<le> 250"
    by simp
  then have "of_int 1500 / 2 \<le> 1000 + rnd (rnd (250 * rnd (u - 0.5)) * 2)"
      "1000 + rnd (rnd (250 * rnd (u - 0.5)) * 2) \<le> of_int 2500 / 2"
    by simp_all
  from rounds_between[OF d _ _ this]
  have "750 \<le> rnd (1000 + rnd (rnd (250 * rnd (u - 0.5)) * 2))
      \<and> rnd (1000 + rnd (rnd (250 * rnd (u - 0.5)) * 2)) \<le> 1250"
    by simp
  then show ?thesis by (simp only: a)
qed

section \<open>Claims about \<^verbatim>\<open>retry\<close>\<close>

text \<open>Unfolding sets for running the model on the concrete inputs.\<close>

lemmas model_defs = retry_def spread_def defaultOptions_def no_options_def attempts_def start_def
  exhausted_def calculateDelay_def exact_def half_def
lemmas error_defs = isRetryable_def retryableStatusCodes_def message_matches_def str_includes_def
  ascii_lower_def lower_char_def sublist_Cons_right mock_error_def error_503_def error_400_def
  quota_403_def test_error_def network_error_def numeric_message_def no_properties_def
  always_fails_def fails_first_def



text \<open>
  Claim C6, as stated, for every \<open>N\<close>: it fails at \<open>N = 0\<close>, where the loop body never
  runs. The operation that always fails with status 400 (not retryable) is not invoked at
  all, and \<^verbatim>\<open>retry\<close> fails with the \<^verbatim>\<open>TypeError\<close> of line 84 instead of the
  operation's error.
\<close>

theorem C6_counterexample:
  "isRetryable ascii_lower error_400 = Some False
   \<and> retry exact ascii_lower (always_fails error_400) half (attempts 0) = (TypeError, start)
   \<and> calls start = 0"
  by (simp add: model_defs error_defs retry_loop.simps)

text \<open>
  Claim C6, amended. For every \<open>N \<ge> 1\<close>, if the first invocation of the operation fails
  with an error that is not retryable (one for which \<^verbatim>\<open>isRetryable\<close> returns false),
  \<^verbatim>\<open>retry(op, {maxAttempts: N})\<close> invokes the operation exactly once, sleeps never, and
  rethrows that error unchanged.
\<close>

theorem C6_fatal_error_not_retried:
  assumes "1 \<le> N"
    and "opt_maxAttempts options = Some N"
    and "operation 0 = Throws e"
    and "isRetryable lc e = Some False"
  shows "retry rnd lc operation random options = (Rethrown e, start\<lparr>calls := 1\<rparr>)"
proof -
  let ?config = "spread defaultOptions options"
  have le: "1 \<le> maxAttempts ?config" using assms(1,2) by (simp add: spread_def)
  have z: "operation (calls start) = Throws e" using assms(3) by (simp add: start_def)
  have "retry_loop rnd lc operation random ?config 1 (initialDelay ?config) None start
      = (Rethrown e, start\<lparr>calls := calls start + 1\<rparr>)"
    by (rule retry_loop_fatal[where operation = operation and tr = start, OF le z assms(4)])
  then show ?thesis
    by (simp add: retry_def Let_def start_def)
qed

text \<open>The theorem at \<open>N = 3\<close>, on the operation that always fails with status 400.\<close>

theorem C6_witness:
  "(1::int) \<le> 3 \<and> opt_maxAttempts (attempts 3) = Some 3
   \<and> always_fails error_400 0 = Throws error_400
   \<and> isRetryable ascii_lower error_400 = Some False
   \<and> retry exact ascii_lower (always_fails error_400) half (attempts 3)
       = (Rethrown error_400, \<lparr>calls = 1, draws = 0, sleeps = []\<rparr>)"
proof -
  have r: "isRetryable ascii_lower error_400 = Some False" by (simp add: error_defs)
  have o: "opt_maxAttempts (attempts 3) = Some 3" by (simp add: attempts_def)
  have f: "always_fails error_400 0 = Throws error_400" by (simp add: always_fails_def)
  have n: "(1::int) \<le> 3" by simp
  from C6_fatal_error_not_retried[where operation = "always_fails error_400"
      and rnd = exact and random = half, OF n o f r] r o f
  show ?thesis by (simp add: start_def)
qed








section \<open>Claims about \<^verbatim>\<open>calculateDelay\<close> and \<^verbatim>\<open>isRetryable\<close>\<close>

text \<open>
  Claim C7. Without jitter, \<^verbatim>\<open>calculateDelay(1000, config)\<close> is exactly 1000. With jitter,
  for every draw \<open>u\<close> of \<^verbatim>\<open>Math.random()\<close> (from 0 up to but not including 1) the
  result lies between 750 and 1250 and is at least 100, in double precision arithmetic.
\<close>

theorem C7_calculateDelay_range:
  "(\<not> jitter config \<longrightarrow> calculateDelay rnd 1000 config u = 1000) \<and>
   (jitter config \<and> rounds_like_double rnd \<and> 0 \<le> u \<and> u < 1 \<longrightarrow>
      750 \<le> calculateDelay rnd 1000 config u \<and> calculateDelay rnd 1000 config u \<le> 1250 \<and>
      100 \<le> calculateDelay rnd 1000 config u)"
proof (intro conjI impI)
  assume "\<not> jitter config"
  then show "calculateDelay rnd 1000 config u = 1000" by (simp add: calculateDelay_def)
next
  assume h: "jitter config \<and> rounds_like_double rnd \<and> 0 \<le> u \<and> u < 1"
  let ?x = "rnd (1000 + rnd (rnd (rnd (1000 * 0.25) * rnd (u - 0.5)) * 2))"
  have v: "calculateDelay rnd 1000 config u = max 100 ?x"
    using h by (simp add: calculateDelay_def Let_def)
  have x: "750 \<le> ?x \<and> ?x \<le> 1250"
    using h by (intro jitter_range) simp_all
  show "750 \<le> calculateDelay rnd 1000 config u" using x unfolding v by linarith
  show "calculateDelay rnd 1000 config u \<le> 1250" using x unfolding v by simp
  show "100 \<le> calculateDelay rnd 1000 config u" unfolding v by simp
qed

text \<open>The theorem without jitter, and with jitter at the draw one quarter, which gives 875.\<close>

theorem C7_witness:
  "\<not> jitter (defaultOptions\<lparr>jitter := False\<rparr>)
   \<and> calculateDelay exact 1000 (defaultOptions\<lparr>jitter := False\<rparr>) (1 / 4) = 1000
   \<and> jitter defaultOptions \<and> rounds_like_double exact \<and> (0::real) \<le> 1 / 4 \<and> (1::real) / 4 < 1
   \<and> 750 \<le> calculateDelay exact 1000 defaultOptions (1 / 4)
   \<and> calculateDelay exact 1000 defaultOptions (1 / 4) \<le> 1250
   \<and> 100 \<le> calculateDelay exact 1000 defaultOptions (1 / 4)
   \<and> calculateDelay exact 1000 defaultOptions (1 / 4) = 875"
proof -
  have v: "calculateDelay exact 1000 defaultOptions (1 / 4) = 875"
    by (simp add: calculateDelay_def defaultOptions_def exact_def)
  from C7_calculateDelay_range[of "defaultOptions\<lparr>jitter := False\<rparr>" exact "1 / 4"]
    C7_calculateDelay_range[of defaultOptions exact "1 / 4"] rounds_like_double_exact v
  show ?thesis by (simp add: defaultOptions_def)
qed

text \<open>
  The phrases are ASCII and in lower case already, so \<^verbatim>\<open>toLowerCase\<close> leaves them as
  they are, and the code's test on a message that is a string is the specification's:
  the message contains one of the phrases, ignoring case.
\<close>

lemma lowers_ascii_ascii_lower: "lowers_ascii ascii_lower"
  by (simp add: lowers_ascii_def)

lemma phrase_is_ascii:
  "p \<in> set retryable_phrases \<Longrightarrow> list_all is_ascii p \<and> ascii_lower p = p \<and> p \<noteq> []"
  by (auto simp: retryable_phrases_def is_ascii_def ascii_lower_def lower_char_def)

lemma lc_phrase:
  "lowers_ascii lc \<Longrightarrow> p \<in> set retryable_phrases \<Longrightarrow> lc p = p"
  using phrase_is_ascii[of p] by (simp add: lowers_ascii_def)

lemma lc_empty: "lowers_ascii lc \<Longrightarrow> lc [] = []"
  by (simp add: lowers_ascii_def ascii_lower_def)

lemma message_matches_iff:
  assumes "lowers_ascii lc"
  shows "message_matches lc m \<longleftrightarrow> (\<exists>p \<in> set retryable_phrases. contains_ignoring_case lc m p)"
proof -
  have "contains_ignoring_case lc m p \<longleftrightarrow> str_includes (lc m) p"
    if "p \<in> set retryable_phrases" for p
    using that lc_phrase[OF assms] by (simp add: contains_ignoring_case_def str_includes_def)
  then have "(\<exists>p \<in> set retryable_phrases. contains_ignoring_case lc m p)
      \<longleftrightarrow> (\<exists>p \<in> set retryable_phrases. str_includes (lc m) p)"
    by blast
  also have "\<dots> \<longleftrightarrow> message_matches lc m"
    by (simp add: retryable_phrases_def message_matches_def Let_def)
  finally show ?thesis by simp
qed

lemma contains_nonempty:
  assumes "lowers_ascii lc" "p \<in> set retryable_phrases" "contains_ignoring_case lc m p"
  shows "m \<noteq> []"
proof
  assume "m = []"
  with assms(3) have "lc p = []"
    by (simp add: contains_ignoring_case_def lc_empty[OF assms(1)])
  with lc_phrase[OF assms(1,2)] phrase_is_ascii[OF assms(2)] show False by simp
qed

text \<open>
  On messages of ASCII characters, to contain a phrase ignoring case is to have a
  contiguous part that equals the phrase once both are in lower case.
\<close>

lemma map_eq_appendD:
  "map f xs = ys @ zs \<Longrightarrow> \<exists>us vs. xs = us @ vs \<and> map f us = ys \<and> map f vs = zs"
  by (auto simp: map_eq_append_conv)

lemma contains_ignoring_case_ascii:
  "contains_ignoring_case ascii_lower m p \<longleftrightarrow>
     (\<exists>before mid after. m = before @ mid @ after \<and> ascii_lower mid = ascii_lower p)"
proof
  assume "\<exists>before mid after. m = before @ mid @ after \<and> ascii_lower mid = ascii_lower p"
  then obtain before mid after where "m = before @ mid @ after" "ascii_lower mid = ascii_lower p"
    by blast
  then have "ascii_lower m = ascii_lower before @ ascii_lower p @ ascii_lower after"
    by (simp add: ascii_lower_def)
  then show "contains_ignoring_case ascii_lower m p"
    by (simp add: contains_ignoring_case_def)
next
  assume "contains_ignoring_case ascii_lower m p"
  then obtain ps ss where "map lower_char m = ps @ (ascii_lower p @ ss)"
    by (auto simp: contains_ignoring_case_def sublist_def ascii_lower_def)
  from map_eq_appendD[OF this] obtain before rest where m1: "m = before @ rest"
    and "map lower_char rest = ascii_lower p @ ss"
    by blast
  from map_eq_appendD[OF this(2)] obtain mid after
    where "rest = mid @ after" "map lower_char mid = ascii_lower p"
    by blast
  with m1 show "\<exists>before mid after. m = before @ mid @ after \<and> ascii_lower mid = ascii_lower p"
    by (auto simp: ascii_lower_def)
qed

text \<open>
  Claim C5, as stated: its last part fails. The error that
  \<^verbatim>\<open>createMockGoogleApiError(403, 'Quota exceeded')\<close> builds has the code 403, and
  \<^verbatim>\<open>isRetryable\<close> returns true for it, because its message contains "quota".
\<close>

theorem C5_counterexample:
  "quota_403 = Object \<lparr>code = Num 403, status = Num 403, message = Str ''Quota exceeded''\<rparr>
   \<and> isRetryable ascii_lower quota_403 = Some True"
  by (simp add: isRetryable_def retryableStatusCodes_def message_matches_def str_includes_def
      ascii_lower_def lower_char_def sublist_Cons_right mock_error_def quota_403_def)

text \<open>
  Claim C5, amended. \<^verbatim>\<open>isRetryable\<close> returns true for every error object whose code or
  status is one of the numbers 429, 500, 502, 503, 504, for every error object whose
  code is one of the four network codes, and for every error object whose message is a
  string that contains one of the six phrases, ignoring case. It returns false for
  every error object whose code is one of 400, 401, 403, 404, 409, provided its status
  is none of the five retryable numbers and its message is falsy (absent, say) or a
  string that contains none of the six phrases, ignoring case. Of \<^verbatim>\<open>toLowerCase\<close> the
  theorem uses only what it does on strings of ASCII characters.
\<close>

theorem C5_isRetryable_classes:
  "(c \<in> {429, 500, 502, 503, 504} \<and> (code e = Num c \<or> status e = Num c)
      \<longrightarrow> isRetryable lc (Object e) = Some True) \<and>
   (s \<in> set network_codes \<and> code e = Str s \<longrightarrow> isRetryable lc (Object e) = Some True) \<and>
   (lowers_ascii lc \<and> p \<in> set retryable_phrases \<and> message e = Str m \<and>
    contains_ignoring_case lc m p
      \<longrightarrow> isRetryable lc (Object e) = Some True) \<and>
   (lowers_ascii lc \<and> d \<in> {400, 401, 403, 404, 409} \<and> code e = Num d \<and>
    (\<forall>c \<in> {429, 500, 502, 503, 504}. status e \<noteq> Num c) \<and>
    (\<not> truthy (message e) \<or>
     (\<exists>m. message e = Str m \<and> (\<forall>p \<in> set retryable_phrases. \<not> contains_ignoring_case lc m p)))
      \<longrightarrow> isRetryable lc (Object e) = Some False)"
proof (intro conjI impI)
  assume "c \<in> {429, 500, 502, 503, 504} \<and> (code e = Num c \<or> status e = Num c)"
  then show "isRetryable lc (Object e) = Some True"
    by (auto simp: isRetryable_def retryableStatusCodes_def)
next
  assume "s \<in> set network_codes \<and> code e = Str s"
  then show "isRetryable lc (Object e) = Some True"
    by (auto simp: isRetryable_def network_codes_def)
next
  assume h: "lowers_ascii lc \<and> p \<in> set retryable_phrases \<and> message e = Str m \<and>
    contains_ignoring_case lc m p"
  then have "message_matches lc m" "m \<noteq> []"
    using message_matches_iff contains_nonempty by blast+
  with h show "isRetryable lc (Object e) = Some True"
    by (simp add: isRetryable_def)
next
  assume h: "lowers_ascii lc \<and> d \<in> {400, 401, 403, 404, 409} \<and> code e = Num d \<and>
    (\<forall>c \<in> {429, 500, 502, 503, 504}. status e \<noteq> Num c) \<and>
    (\<not> truthy (message e) \<or>
     (\<exists>m. message e = Str m \<and> (\<forall>p \<in> set retryable_phrases. \<not> contains_ignoring_case lc m p)))"
  then have c: "\<not> array_includes retryableStatusCodes (code e)"
    by (auto simp: retryableStatusCodes_def)
  from h have s: "\<not> array_includes retryableStatusCodes (status e)"
    by (cases "status e") (auto simp: retryableStatusCodes_def)
  from h have n: "code e \<noteq> Str ''ECONNRESET''" "code e \<noteq> Str ''ENOTFOUND''"
      "code e \<noteq> Str ''ECONNREFUSED''" "code e \<noteq> Str ''ETIMEDOUT''"
    by auto
  from h have m: "\<not> truthy (message e) \<or> (\<exists>m. message e = Str m \<and> \<not> message_matches lc m)"
    using message_matches_iff[of lc] by blast
  from c s n m show "isRetryable lc (Object e) = Some False"
    by (auto simp: isRetryable_def)
qed

text \<open>
  The theorem on the mock error 503, on a network error, on the message
  "Quota exceeded", and on the mock error 400 with the message "Bad request".
\<close>

theorem C5_witness:
  "(503::real) \<in> {429, 500, 502, 503, 504}
   \<and> error_503 = Object \<lparr>code = Num 503, status = Num 503, message = Str ''Mock Google API Error''\<rparr>
   \<and> isRetryable ascii_lower error_503 = Some True
   \<and> ''ECONNRESET'' \<in> set network_codes
   \<and> network_error
       = Object \<lparr>code = Str ''ECONNRESET'', status = Undefined, message = Str ''Network error''\<rparr>
   \<and> isRetryable ascii_lower network_error = Some True
   \<and> lowers_ascii ascii_lower \<and> ''quota'' \<in> set retryable_phrases
   \<and> quota_403 = Object \<lparr>code = Num 403, status = Num 403, message = Str ''Quota exceeded''\<rparr>
   \<and> contains_ignoring_case ascii_lower ''Quota exceeded'' ''quota''
   \<and> isRetryable ascii_lower quota_403 = Some True
   \<and> (400::real) \<in> {400, 401, 403, 404, 409}
   \<and> error_400 = Object \<lparr>code = Num 400, status = Num 400, message = Str ''Bad request''\<rparr>
   \<and> isRetryable ascii_lower error_400 = Some False"
proof -
  have q: "contains_ignoring_case ascii_lower ''Quota exceeded'' ''quota''"
    by (simp add: contains_ignoring_case_def ascii_lower_def lower_char_def sublist_Cons_right)
  have b: "\<not> contains_ignoring_case ascii_lower ''Bad request'' p"
    if "p \<in> set retryable_phrases" for p
    using that
    by (auto simp: contains_ignoring_case_def retryable_phrases_def ascii_lower_def
        lower_char_def sublist_Cons_right)
  from C5_isRetryable_classes[of 503
      "\<lparr>code = Num 503, status = Num 503, message = Str ''Mock Google API Error''\<rparr>"
      ascii_lower]
    C5_isRetryable_classes[of _
      "\<lparr>code = Str ''ECONNRESET'', status = Undefined, message = Str ''Network error''\<rparr>"
      ascii_lower "''ECONNRESET''"]
    C5_isRetryable_classes[of _
      "\<lparr>code = Num 403, status = Num 403, message = Str ''Quota exceeded''\<rparr>"
      ascii_lower _ "''quota''" "''Quota exceeded''"]
    C5_isRetryable_classes[of _
      "\<lparr>code = Num 400, status = Num 400, message = Str ''Bad request''\<rparr>"
      ascii_lower _ _ _ 400]
    q b lowers_ascii_ascii_lower
  show ?thesis
    by (simp add: error_503_def error_400_def quota_403_def network_error_def mock_error_def
        network_codes_def retryable_phrases_def)
qed

section \<open>Claims about the circuit breaker\<close>

text \<open>Unfolding sets for running the breaker on the concrete inputs.\<close>

lemmas breaker_defs = guarded_def window_reset_def admit_def on_success_def on_failure_def
  elapsed_exceeds_def
lemmas breaker_inputs = threshold_def quick_reset_def createCircuitBreaker_def cb_spread_def
  cb_defaults_def cb_no_options_def fresh_def always_fails_def fails_first_def fail_ok_fail_def

text \<open>
  Claim C1, as stated: it fails. With \<^verbatim>\<open>failureThreshold\<close> 2, a failure at time 1000
  and a success at time 2000 leave the breaker closed with the failure count still 1
  (lines 252 to 262 change nothing outside the half-open state), and a failure at
  time 3000 then opens the circuit, although no two failures were consecutive.
\<close>

theorem C1_counterexample:
  "run (threshold 2) fail_ok_fail [1000, 2000] (fresh, 0)
     = (\<lparr>state = CLOSED, failures = 1, lastFailureTime = Some 1000, successes = 0\<rparr>, 2)
   \<and> fail_ok_fail 1 = Returns ''success''
   \<and> run (threshold 2) fail_ok_fail [1000, 2000, 3000] (fresh, 0)
     = (\<lparr>state = OPEN, failures = 2, lastFailureTime = Some 3000, successes = 0\<rparr>, 3)"
  by (simp add: breaker_defs breaker_inputs)

text \<open>
  Claim C1, amended. While the breaker is closed and no more than
  \<^verbatim>\<open>monitoringWindow\<close> has passed since the last failure, a successful invocation leaves
  the failure count and the rest of the state unchanged; a failed one adds 1 to the
  count, records the time, and opens the circuit as soon as the count reaches
  \<^verbatim>\<open>failureThreshold\<close>, whether or not successes came in between.
\<close>

theorem C1_closed_counts_all_failures:
  "state b = CLOSED \<and> \<not> elapsed_exceeds now (lastFailureTime b) (monitoringWindow config) \<longrightarrow>
     guarded config operation now (b, n) =
       (case operation n of
          Returns r \<Rightarrow> (Returns r, b, n + 1)
        | Throws e \<Rightarrow>
            (Throws e,
             b\<lparr>failures := failures b + 1, lastFailureTime := Some now,
               state := (if failureThreshold config \<le> failures b + 1 then OPEN else CLOSED)\<rparr>,
             n + 1))"
  by (cases b) (simp add: guarded_def window_reset_def admit_def on_success_def on_failure_def
      split: outcome.splits)

text \<open>The theorem on the second and third call of the run above.\<close>

theorem C1_witness:
  "state \<lparr>state = CLOSED, failures = 1, lastFailureTime = Some 1000, successes = 0\<rparr> = CLOSED
   \<and> \<not> elapsed_exceeds 2000 (Some 1000) (monitoringWindow (threshold 2))
   \<and> guarded (threshold 2) fail_ok_fail 2000
        (\<lparr>state = CLOSED, failures = 1, lastFailureTime = Some 1000, successes = 0\<rparr>, 1)
      = (Returns ''success'',
         \<lparr>state = CLOSED, failures = 1, lastFailureTime = Some 1000, successes = 0\<rparr>, 2)
   \<and> guarded (threshold 2) fail_ok_fail 3000
        (\<lparr>state = CLOSED, failures = 1, lastFailureTime = Some 1000, successes = 0\<rparr>, 2)
      = (Throws test_error,
         \<lparr>state = OPEN, failures = 2, lastFailureTime = Some 3000, successes = 0\<rparr>, 3)"
  using C1_closed_counts_all_failures[of
      "\<lparr>state = CLOSED, failures = 1, lastFailureTime = Some 1000, successes = 0\<rparr>"
      2000 "threshold 2" fail_ok_fail 1]
    C1_closed_counts_all_failures[of
      "\<lparr>state = CLOSED, failures = 1, lastFailureTime = Some 1000, successes = 0\<rparr>"
      3000 "threshold 2" fail_ok_fail 2]
  by (simp add: elapsed_exceeds_def breaker_inputs)

text \<open>
  Claim C2, as stated: it fails. With \<^verbatim>\<open>failureThreshold\<close> 3 and the default window of
  300000 ms, three consecutive failing calls at the times 1, 400001 and 800001 leave
  the breaker closed with the failure count 1: lines 229 to 233 reset the count before
  the second and before the third call.
\<close>

theorem C2_counterexample:
  "failureThreshold (threshold 3) = 3
   \<and> run (threshold 3) (always_fails test_error) [1, 400001, 800001] (fresh, 0)
     = (\<lparr>state = CLOSED, failures = 1, lastFailureTime = Some 800001, successes = 0\<rparr>, 3)"
  by (simp add: breaker_defs breaker_inputs)

text \<open>
  Claim C2, amended. For a breaker with \<^verbatim>\<open>failureThreshold\<close> 3, three consecutive
  failing calls, each made no more than \<^verbatim>\<open>monitoringWindow\<close> after the one before, put
  the breaker into the open state with the failure count 3. A fourth call made no more
  than \<^verbatim>\<open>resetTimeout\<close> and no more than \<^verbatim>\<open>monitoringWindow\<close> after the third throws
  the error of line 245, does not invoke the operation (3 invocations in all) and
  leaves the failure count at 3.
\<close>

theorem C2_three_failures_open:
  assumes "failureThreshold config = 3"
    and "operation 0 = Throws e0" and "operation 1 = Throws e1" and "operation 2 = Throws e2"
    and "t2 - t1 \<le> monitoringWindow config" and "t3 - t2 \<le> monitoringWindow config"
    and "t4 - t3 \<le> monitoringWindow config" and "t4 - t3 \<le> resetTimeout config"
  shows "run config operation [t1, t2, t3] (fresh, 0)
           = (\<lparr>state = OPEN, failures = 3, lastFailureTime = Some t3, successes = 0\<rparr>, 3)
       \<and> guarded config operation t4 (run config operation [t1, t2, t3] (fresh, 0))
           = (Throws open_error,
              \<lparr>state = OPEN, failures = 3, lastFailureTime = Some t3, successes = 0\<rparr>, 3)"
proof -
  let ?b1 = "\<lparr>state = CLOSED, failures = 1, lastFailureTime = Some t1, successes = 0\<rparr>"
  let ?b2 = "\<lparr>state = CLOSED, failures = 2, lastFailureTime = Some t2, successes = 0\<rparr>"
  let ?b3 = "\<lparr>state = OPEN, failures = 3, lastFailureTime = Some t3, successes = 0\<rparr>"
  have one: "operation (Suc 0) = Throws e1" using assms(3) by simp
  have two: "operation (Suc (Suc 0)) = Throws e2" using assms(4) by (simp add: numeral_2_eq_2)
  have c1: "guarded config operation t1 (fresh, 0) = (Throws e0, ?b1, Suc 0)"
    using assms(1,2) by (simp add: breaker_defs fresh_def)
  have c2: "guarded config operation t2 (?b1, Suc 0) = (Throws e1, ?b2, Suc (Suc 0))"
    using assms(1,5) one by (simp add: breaker_defs)
  have c3: "guarded config operation t3 (?b2, Suc (Suc 0)) = (Throws e2, ?b3, 3)"
    using assms(1,6) two by (simp add: breaker_defs)
  have c4: "guarded config operation t4 (?b3, 3) = (Throws open_error, ?b3, 3)"
    using assms(7,8) by (simp add: breaker_defs)
  have r: "run config operation [t1, t2, t3] (fresh, 0) = (?b3, 3)"
    by (simp add: c1 c2 c3)
  show ?thesis unfolding r using c4 by simp
qed

text \<open>The theorem on the operation of the unit test, called at the times 0, 10, 20 and 1010.\<close>

theorem C2_witness:
  "failureThreshold (threshold 3) = 3
   \<and> always_fails test_error 0 = Throws test_error
   \<and> (10 - 0 :: int) \<le> monitoringWindow (threshold 3)
   \<and> (1010 - 20 :: int) \<le> resetTimeout (threshold 3)
   \<and> run (threshold 3) (always_fails test_error) [0, 10, 20] (fresh, 0)
       = (\<lparr>state = OPEN, failures = 3, lastFailureTime = Some 20, successes = 0\<rparr>, 3)
   \<and> guarded (threshold 3) (always_fails test_error) 1010
         (run (threshold 3) (always_fails test_error) [0, 10, 20] (fresh, 0))
       = (Throws open_error,
          \<lparr>state = OPEN, failures = 3, lastFailureTime = Some 20, successes = 0\<rparr>, 3)"
proof -
  have f: "always_fails test_error k = Throws test_error" for k by (simp add: always_fails_def)
  have t: "failureThreshold (threshold 3) = 3" "monitoringWindow (threshold 3) = 300000"
      "resetTimeout (threshold 3) = 60000"
    by (simp_all add: breaker_inputs)
  from C2_three_failures_open[where config = "threshold 3" and operation = "always_fails test_error"
      and ?t1.0 = 0 and ?t2.0 = 10 and ?t3.0 = 20 and ?t4.0 = 1010, OF t(1) f f f] t f
  show ?thesis by (simp add: breaker_defs breaker_inputs open_error_def)
qed

text \<open>
  Claim C3, as stated: it fails. With \<^verbatim>\<open>resetTimeout\<close> 100, a breaker opened at time
  1000 still rejects the call made at time 1100, when exactly \<^verbatim>\<open>resetTimeout\<close> has
  passed: line 237 asks for more than \<^verbatim>\<open>resetTimeout\<close>.
\<close>

theorem C3_counterexample:
  "run quick_reset (fails_first 2 test_error) [1000, 1000] (fresh, 0) = (tripped, 2)
   \<and> state tripped = OPEN \<and> lastFailureTime tripped = Some 1000
   \<and> (1100 - 1000 :: int) \<ge> resetTimeout quick_reset
   \<and> guarded quick_reset (fails_first 2 test_error) 1100 (tripped, 2)
       = (Throws open_error, tripped, 2)"
  by (simp add: breaker_defs breaker_inputs tripped_def)

text \<open>
  Claim C3, amended. For every open breaker whose \<^verbatim>\<open>lastFailureTime\<close> is a timestamp
  other than 0: once more than \<^verbatim>\<open>resetTimeout\<close> and no more than \<^verbatim>\<open>monitoringWindow\<close>
  has passed since then, the next call is let through as a half-open probe with the
  success count reset to 0 (a success makes it 1, a failure reopens the circuit). In
  the half-open state, a failure on a call made no more than \<^verbatim>\<open>monitoringWindow\<close> after
  the last failure returns the breaker to the open state, and the second success leaves
  the breaker closed with the failure count 0.
\<close>

theorem C3_half_open_probe:
  "(state b = OPEN \<and> lastFailureTime b = Some t \<and> t \<noteq> 0 \<and>
    resetTimeout config < now - t \<and> now - t \<le> monitoringWindow config \<longrightarrow>
      admit config now (window_reset config now b) = Some (b\<lparr>state := HALF_OPEN, successes := 0\<rparr>) \<and>
      guarded config operation now (b, n) =
        (case operation n of
           Returns r \<Rightarrow> (Returns r, b\<lparr>state := HALF_OPEN, successes := 1\<rparr>, n + 1)
         | Throws e \<Rightarrow>
             (Throws e,
              b\<lparr>state := OPEN, successes := 0, failures := failures b + 1,
                lastFailureTime := Some now\<rparr>,
              n + 1))) \<and>
   (state b = HALF_OPEN \<and> \<not> elapsed_exceeds now (lastFailureTime b) (monitoringWindow config) \<and>
    operation n = Throws e \<longrightarrow>
      guarded config operation now (b, n) =
        (Throws e, b\<lparr>state := OPEN, failures := failures b + 1, lastFailureTime := Some now\<rparr>,
         n + 1)) \<and>
   (state b = HALF_OPEN \<and> successes b = 1 \<and> operation n = Returns r \<longrightarrow>
      fst (guarded config operation now (b, n)) = Returns r \<and>
      state (fst (snd (guarded config operation now (b, n)))) = CLOSED \<and>
      failures (fst (snd (guarded config operation now (b, n)))) = 0 \<and>
      snd (snd (guarded config operation now (b, n))) = n + 1)"
proof (intro conjI impI)
  assume h: "state b = OPEN \<and> lastFailureTime b = Some t \<and> t \<noteq> 0 \<and>
    resetTimeout config < now - t \<and> now - t \<le> monitoringWindow config"
  then have w: "window_reset config now b = b"
    by (simp add: window_reset_def elapsed_exceeds_def)
  show "admit config now (window_reset config now b) = Some (b\<lparr>state := HALF_OPEN, successes := 0\<rparr>)"
    using h unfolding w by (simp add: admit_def elapsed_exceeds_def)
  show "guarded config operation now (b, n) =
        (case operation n of
           Returns r \<Rightarrow> (Returns r, b\<lparr>state := HALF_OPEN, successes := 1\<rparr>, n + 1)
         | Throws e \<Rightarrow>
             (Throws e,
              b\<lparr>state := OPEN, successes := 0, failures := failures b + 1,
                lastFailureTime := Some now\<rparr>,
              n + 1))"
    using h
    by (cases b) (simp add: guarded_def window_reset_def admit_def on_success_def on_failure_def
        elapsed_exceeds_def split: outcome.splits)
next
  assume "state b = HALF_OPEN \<and> \<not> elapsed_exceeds now (lastFailureTime b) (monitoringWindow config) \<and>
    operation n = Throws e"
  then show "guarded config operation now (b, n) =
        (Throws e, b\<lparr>state := OPEN, failures := failures b + 1, lastFailureTime := Some now\<rparr>,
         n + 1)"
    by (cases b) (simp add: guarded_def window_reset_def admit_def on_failure_def)
next
  assume h: "state b = HALF_OPEN \<and> successes b = 1 \<and> operation n = Returns r"
  then have g: "guarded config operation now (b, n) =
      (Returns r,
       (if elapsed_exceeds now (lastFailureTime b) (monitoringWindow config)
        then b\<lparr>failures := 0, successes := 0, state := CLOSED\<rparr>
        else b\<lparr>successes := 2, state := CLOSED, failures := 0\<rparr>), n + 1)"
    by (cases b) (simp add: guarded_def window_reset_def admit_def on_success_def)
  show "fst (guarded config operation now (b, n)) = Returns r" by (simp add: g)
  show "state (fst (snd (guarded config operation now (b, n)))) = CLOSED" by (simp add: g)
  show "failures (fst (snd (guarded config operation now (b, n)))) = 0" by (simp add: g)
  show "snd (snd (guarded config operation now (b, n))) = n + 1" by (simp add: g)
qed

text \<open>
  The theorem on the breaker opened at time 1000: a probe at time 1101 that succeeds,
  and from the probing state at time 1200 a failure and a second success.
\<close>

theorem C3_witness:
  "state tripped = OPEN \<and> lastFailureTime tripped = Some 1000 \<and> (1000::int) \<noteq> 0
   \<and> resetTimeout quick_reset < 1101 - 1000 \<and> (1101 - 1000 :: int) \<le> monitoringWindow quick_reset
   \<and> admit quick_reset 1101 (window_reset quick_reset 1101 tripped)
       = Some (tripped\<lparr>state := HALF_OPEN, successes := 0\<rparr>)
   \<and> guarded quick_reset (fails_first 2 test_error) 1101 (tripped, 2)
       = (Returns ''success'', tripped\<lparr>state := HALF_OPEN, successes := 1\<rparr>, 3)
   \<and> state probing = HALF_OPEN
   \<and> \<not> elapsed_exceeds 1200 (lastFailureTime probing) (monitoringWindow quick_reset)
   \<and> always_fails test_error 3 = Throws test_error
   \<and> guarded quick_reset (always_fails test_error) 1200 (probing, 3)
       = (Throws test_error,
          \<lparr>state = OPEN, failures = 3, lastFailureTime = Some 1200, successes = 1\<rparr>, 4)
   \<and> successes probing = 1 \<and> fails_first 2 test_error 3 = Returns ''success''
   \<and> state (fst (snd (guarded quick_reset (fails_first 2 test_error) 1200 (probing, 3)))) = CLOSED
   \<and> failures (fst (snd (guarded quick_reset (fails_first 2 test_error) 1200 (probing, 3)))) = 0"
  using C3_half_open_probe[of tripped 1000 quick_reset 1101 "fails_first 2 test_error" 2]
    C3_half_open_probe[of probing 1000 quick_reset 1200 "always_fails test_error" 3 test_error]
    C3_half_open_probe[of probing 1000 quick_reset 1200 "fails_first 2 test_error" 3 _ "''success''"]
  by (simp add: breaker_inputs tripped_def probing_def elapsed_exceeds_def)

text \<open>
  Claim C9, as stated: its conclusion fails. With \<^verbatim>\<open>failureThreshold\<close> 3 and the window
  of 300000 ms, failures at the times 1, 200001 and 400001 open the circuit at time
  400001, when the first failure is 400000 ms old; without the first failure the
  breaker stays closed. The window is measured from the latest failure only.
\<close>

theorem C9_counterexample:
  "monitoringWindow (threshold 3) < 400001 - 1
   \<and> run (threshold 3) (always_fails test_error) [1, 200001, 400001] (fresh, 0)
       = (\<lparr>state = OPEN, failures = 3, lastFailureTime = Some 400001, successes = 0\<rparr>, 3)
   \<and> run (threshold 3) (always_fails test_error) [200001, 400001] (fresh, 0)
       = (\<lparr>state = CLOSED, failures = 2, lastFailureTime = Some 400001, successes = 0\<rparr>, 2)"
  by (simp add: breaker_defs breaker_inputs)

text \<open>
  Claim C9, amended. For every call, whatever the state: if \<^verbatim>\<open>lastFailureTime\<close> is a
  timestamp other than 0 and more than \<^verbatim>\<open>monitoringWindow\<close> has passed since it, the
  failure count and the half-open success count are reset to 0 and the state is forced
  to closed before the call is evaluated, so the call is let through and, if it fails,
  counts as the first failure. No failure contributes to opening the circuit once more
  than \<^verbatim>\<open>monitoringWindow\<close> has passed since the latest failure.
\<close>

theorem C9_window_reset:
  "lastFailureTime b = Some t \<and> t \<noteq> 0 \<and> monitoringWindow config < now - t \<longrightarrow>
     window_reset config now b = b\<lparr>failures := 0, successes := 0, state := CLOSED\<rparr> \<and>
     guarded config operation now (b, n) =
       (case operation n of
          Returns r \<Rightarrow> (Returns r, b\<lparr>failures := 0, successes := 0, state := CLOSED\<rparr>, n + 1)
        | Throws e \<Rightarrow>
            (Throws e,
             b\<lparr>failures := 1, successes := 0, lastFailureTime := Some now,
               state := (if failureThreshold config \<le> 1 then OPEN else CLOSED)\<rparr>,
             n + 1))"
  by (cases b) (simp add: guarded_def window_reset_def admit_def on_success_def on_failure_def
      elapsed_exceeds_def split: outcome.splits)

text \<open>The theorem on the breaker opened at time 1000, called again at time 400000.\<close>

theorem C9_witness:
  "lastFailureTime tripped = Some 1000 \<and> (1000::int) \<noteq> 0
   \<and> monitoringWindow quick_reset < 400000 - 1000
   \<and> window_reset quick_reset 400000 tripped
       = \<lparr>state = CLOSED, failures = 0, lastFailureTime = Some 1000, successes = 0\<rparr>
   \<and> guarded quick_reset (always_fails test_error) 400000 (tripped, 2)
       = (Throws test_error,
          \<lparr>state = CLOSED, failures = 1, lastFailureTime = Some 400000, successes = 0\<rparr>, 3)"
  using C9_window_reset[of tripped 1000 quick_reset 400000 "always_fails test_error" 2]
  by (simp add: breaker_inputs tripped_def)

end
